theory Spec2Isabelle
  imports Complex_Main
begin

section \<open>Python values used by the EvalForge SDK\<close>

subsection \<open>Floats\<close>

text \<open>
  A Python \<^verbatim>\<open>float\<close> is an IEEE 754 binary64 number. It is modelled by the rational
  it denotes; every arithmetic operation computes the exact rational result and rounds
  it to the nearest binary64 value, ties to even (53 significant bits, least exponent
  \<open>-1074\<close>). Infinities and NaN are not modelled: the operands that occur here (clock
  readings, second counts of a \<^verbatim>\<open>timedelta\<close>) stay far below the overflow threshold.
\<close>

type_synonym pyfloat = rat

definition round_half_even :: "rat \<Rightarrow> int" where
  "round_half_even x =
     (let f = \<lfloor>x\<rfloor>; d = x - of_int f
      in if d < 1 / 2 then f
         else if 1 / 2 < d then f + 1
         else if even f then f else f + 1)"

function bit_length :: "int \<Rightarrow> int" where
  "bit_length n = (if n \<le> 0 then 0 else 1 + bit_length (n div 2))"
  by pat_completeness auto
termination
  by (relation "measure nat") auto

definition floor_log2 :: "rat \<Rightarrow> int" where
  "floor_log2 x =
     (let (p, q) = quotient_of x;
          g = bit_length p - bit_length q
      in if power_int 2 g \<le> x then g else g - 1)"

definition float_round :: "rat \<Rightarrow> pyfloat" where
  "float_round x =
     (if x = 0 then 0
      else let e = max (floor_log2 \<bar>x\<bar> - 52) (- 1074)
           in of_int (round_half_even (x / power_int 2 e)) * power_int 2 e)"

definition float_sub :: "pyfloat \<Rightarrow> pyfloat \<Rightarrow> pyfloat" where
  "float_sub a b = float_round (a - b)"

definition float_mul :: "pyfloat \<Rightarrow> pyfloat \<Rightarrow> pyfloat" where
  "float_mul a b = float_round (a * b)"

text \<open>\<^verbatim>\<open>a / b\<close> on two Python ints: the correctly rounded quotient.\<close>

definition int_truediv :: "int \<Rightarrow> int \<Rightarrow> pyfloat" where
  "int_truediv a b = float_round (of_int a / of_int b)"

text \<open>\<^verbatim>\<open>int(x)\<close> on a float truncates towards zero.\<close>

definition int_of_float :: "pyfloat \<Rightarrow> int" where
  "int_of_float x = (if 0 \<le> x then \<lfloor>x\<rfloor> else \<lceil>x\<rceil>)"

subsection \<open>Exceptions\<close>

datatype error =
    TypeError
  | ValueError string
  | Full
  | PydanticSerializationError

subsection \<open>Datetimes\<close>

text \<open>
  A \<^verbatim>\<open>datetime\<close> has microsecond resolution: \<open>micros\<close> is the value of its date and
  time fields (the wall clock), counted in microseconds. \<open>tzinfo\<close> identifies the
  \<^verbatim>\<open>tzinfo\<close> object attached to it (\<open>None\<close> when there is none; \<open>0\<close> stands
  for \<^verbatim>\<open>timezone.utc\<close>), and \<open>utcoffset\<close> is what \<^verbatim>\<open>utcoffset()\<close> returns for it,
  in microseconds (\<open>None\<close> for a naive value). A \<^verbatim>\<open>timedelta\<close> is its number of
  microseconds.

  \<^verbatim>\<open>a - b\<close> is the difference of the wall clocks when both values carry the same
  \<^verbatim>\<open>tzinfo\<close> object (or none) or report the same offset; it raises \<^verbatim>\<open>TypeError\<close>
  when only one of them has an offset; otherwise the two offsets are taken into account.
\<close>

record datetime =
  micros :: int
  tzinfo :: "nat option"
  utcoffset :: "int option"

type_synonym timedelta = int

definition datetime_sub :: "datetime \<Rightarrow> datetime \<Rightarrow> error + timedelta" where
  "datetime_sub a b =
     (let base = micros a - micros b
      in if tzinfo a = tzinfo b then Inr base
         else if utcoffset a = utcoffset b then Inr base
         else (case (utcoffset a, utcoffset b) of
                 (Some myoff, Some otoff) \<Rightarrow> Inr (base + otoff - myoff)
               | _ \<Rightarrow> Inl TypeError))"

text \<open>\<^verbatim>\<open>timedelta.total_seconds()\<close> divides the microsecond count by \<open>10\<^sup>6\<close>.\<close>

definition total_seconds :: "timedelta \<Rightarrow> pyfloat" where
  "total_seconds td = int_truediv td (10 ^ 6)"

subsection \<open>Decimal rendering of an int\<close>

definition digit_char :: "nat \<Rightarrow> char" where
  "digit_char d = char_of (48 + d)"

function digits :: "nat \<Rightarrow> string" where
  "digits n = (if n < 10 then [digit_char n] else digits (n div 10) @ [digit_char (n mod 10)])"
  by pat_completeness auto
termination
  by (relation "measure id") auto

definition str_int :: "int \<Rightarrow> string" where
  "str_int i = (if i < 0 then CHR ''-'' # digits (nat (- i)) else digits (nat i))"

text \<open>\<^verbatim>\<open>s.rstrip("/")\<close>\<close>

definition rstrip_slash :: "string \<Rightarrow> string" where
  "rstrip_slash s = rev (dropWhile (\<lambda>c. c = CHR ''/'') (rev s))"

subsection \<open>\<^verbatim>\<open>queue.Queue\<close>\<close>

text \<open>
  The FIFO queue of the standard library: \<open>maxsize \<le> 0\<close> means no capacity bound.
  \<^verbatim>\<open>put_nowait\<close> raises \<^verbatim>\<open>Full\<close> only when \<open>maxsize > 0\<close> and the queue holds
  \<open>maxsize\<close> items; \<^verbatim>\<open>get(timeout)\<close> raises \<^verbatim>\<open>Empty\<close> (here \<open>None\<close>) when no
  item arrives in time. The count of unfinished tasks that \<^verbatim>\<open>task_done\<close> keeps is
  read nowhere in the SDK and is left out.
\<close>

record 'a Queue =
  maxsize :: int
  items :: "'a list"

definition Queue_init :: "int \<Rightarrow> 'a Queue" where
  "Queue_init m = \<lparr>maxsize = m, items = []\<rparr>"

definition put_nowait :: "'a Queue \<Rightarrow> 'a \<Rightarrow> error + 'a Queue" where
  "put_nowait q x =
     (if 0 < maxsize q \<and> maxsize q \<le> int (length (items q)) then Inl Full
      else Inr (q\<lparr>items := items q @ [x]\<rparr>))"

definition queue_get :: "'a Queue \<Rightarrow> ('a \<times> 'a Queue) option" where
  "queue_get q = (case items q of [] \<Rightarrow> None | x # xs \<Rightarrow> Some (x, q\<lparr>items := xs\<rparr>))"

definition queue_empty :: "'a Queue \<Rightarrow> bool" where
  "queue_empty q = (items q = [])"

section \<open>models.py\<close>

record TokenUsage =
  prompt :: int
  completion :: int
  total :: int

text \<open>
  \<^verbatim>\<open>TokenUsage(**data)\<close>: each field is a keyword argument with default 0; after the
  fields are set, a total of 0 is replaced by \<open>prompt + completion\<close>.
\<close>

definition field_default :: "int option \<Rightarrow> int" where
  "field_default v = (case v of None \<Rightarrow> 0 | Some x \<Rightarrow> x)"

definition TokenUsage_init :: "int option \<Rightarrow> int option \<Rightarrow> int option \<Rightarrow> TokenUsage" where
  "TokenUsage_init p c t =
     (let self = \<lparr>prompt = field_default p, completion = field_default c,
                  total = field_default t\<rparr>
      in if total self = 0 then self\<lparr>total := prompt self + completion self\<rparr> else self)"

text \<open>
  A value of a \<^verbatim>\<open>Dict[str, Any]\<close> field: one that \<^verbatim>\<open>model_dump(mode='json')\<close> can
  render, given by its JSON text, or a Python object with no JSON form (an instance of
  \<^verbatim>\<open>object\<close>, say), which validation accepts and serialisation refuses.
\<close>

datatype pyvalue =
    is_JsonValue: JsonValue string
  | PyObject

type_synonym json_dict = "(string \<times> pyvalue) list"

record TraceEvent =
  event_id :: string
  event_project_id :: int
  trace_id :: string
  span_id :: string
  parent_span_id :: "string option"
  operation_type :: string
  start_time :: datetime
  end_time :: datetime
  duration_ms :: int
  status :: string
  event_input :: json_dict
  event_output :: json_dict
  metadata :: json_dict
  tokens :: TokenUsage
  cost :: pyfloat
  provider :: string
  model :: string

text \<open>
  \<^verbatim>\<open>event.model_dump(mode='json')\<close> succeeds exactly when every value of the three
  dictionaries has a JSON form; otherwise it raises \<^verbatim>\<open>PydanticSerializationError\<close>.
\<close>

definition json_serializable :: "TraceEvent \<Rightarrow> bool" where
  "json_serializable event =
     list_all (\<lambda>kv. is_JsonValue (snd kv))
       (event_input event @ event_output event @ metadata event)"

section \<open>client.py\<close>

subsection \<open>The client object\<close>

text \<open>
  The attributes of an \<^verbatim>\<open>EvalForge\<close> instance. The queue and the two
  \<^verbatim>\<open>threading.Event\<close> flags are shared between the caller threads and the worker;
  the throttler is created and never used, so it is left out.
\<close>

record EvalForge =
  api_key :: string
  project_id :: int
  base_url :: string
  batch_size :: int
  flush_interval :: pyfloat
  max_retries :: int
  timeout :: pyfloat
  debug :: bool
  event_queue :: "TraceEvent Queue"
  stop_event :: bool
  flush_event :: bool

text \<open>
  \<^verbatim>\<open>EvalForge.__init__\<close>. The last parameter is the \<^verbatim>\<open>debug\<close> argument; the
  constructor assigns \<^verbatim>\<open>self.debug = True\<close> whatever it is. The queue is
  \<^verbatim>\<open>queue.Queue()\<close>, whose default \<open>maxsize\<close> is 0. The worker thread the
  constructor starts is \<open>background_worker\<close> below.
\<close>

definition EvalForge_init ::
  "string \<Rightarrow> int \<Rightarrow> string \<Rightarrow> int \<Rightarrow> pyfloat \<Rightarrow> int \<Rightarrow> pyfloat \<Rightarrow> bool \<Rightarrow> EvalForge" where
  "EvalForge_init api_key_arg project_id_arg base_url_arg batch_size_arg flush_interval_arg
       max_retries_arg timeout_arg debug_arg =
     \<lparr>api_key = api_key_arg,
      project_id = project_id_arg,
      base_url = rstrip_slash base_url_arg,
      batch_size = batch_size_arg,
      flush_interval = flush_interval_arg,
      max_retries = max_retries_arg,
      timeout = timeout_arg,
      debug = True,
      event_queue = Queue_init 0,
      stop_event = False,
      flush_event = False\<rparr>"

subsection \<open>Sending a batch\<close>

text \<open>
  What \<^verbatim>\<open>_send_batch\<close> does to the outside world, in order: a call of
  \<^verbatim>\<open>requests.post\<close> (URL, headers, the events of the payload, timeout), a
  \<^verbatim>\<open>time.sleep\<close>, a debug \<^verbatim>\<open>print\<close>. The transport answers each post with a
  response (status code and body text) or raises a \<^verbatim>\<open>RequestException\<close>.
\<close>

datatype log_msg =
    SendingRequest string
  | RequestHeaders "(string \<times> string) list"
  | SentEvents nat
  | ApiError int string
  | SendFailed int string
  | QueueFullDrop
  | WorkerError error

datatype effect =
    is_Post: Post string "(string \<times> string) list" "TraceEvent list" pyfloat
  | is_Sleep: Sleep (seconds: nat)
  | is_Print: Print log_msg

datatype reply =
    Response int string
  | RequestException string

definition batch_url :: "EvalForge \<Rightarrow> string" where
  "batch_url self =
     base_url self @ ''/sdk/v1/projects/'' @ str_int (project_id self) @ ''/events/batch''"

definition batch_headers :: "EvalForge \<Rightarrow> (string \<times> string) list" where
  "batch_headers self =
     [(''X-API-Key'', api_key self), (''Content-Type'', ''application/json'')]"

definition post_request :: "EvalForge \<Rightarrow> TraceEvent list \<Rightarrow> effect" where
  "post_request self events =
     Post (batch_url self) (batch_headers self) events (timeout self)"

definition debug_print :: "EvalForge \<Rightarrow> log_msg list \<Rightarrow> effect list" where
  "debug_print self msgs = (if debug self then map Print msgs else [])"

text \<open>
  The loop \<^verbatim>\<open>for attempt in range(self.max_retries + 1)\<close>, from iteration
  \<open>attempt\<close> on; \<open>transport attempt\<close> is the outcome of the post of that iteration.
  A 429 on the last attempt falls out of the \<^verbatim>\<open>if\<close> and reaches the end of the loop
  body, as does the exception handler after its message.
\<close>

function send_attempts ::
  "EvalForge \<Rightarrow> (nat \<Rightarrow> reply) \<Rightarrow> TraceEvent list \<Rightarrow> nat \<Rightarrow> effect list" where
  "send_attempts self transport events attempt =
     (if int attempt < max_retries self + 1 then
        debug_print self [SendingRequest (batch_url self), RequestHeaders (batch_headers self)] @
        post_request self events #
        (case transport attempt of
           Response status_code body \<Rightarrow>
             if status_code = 201 then debug_print self [SentEvents (length events)]
             else if status_code = 429 then
               (if int attempt < max_retries self
                then Sleep (2 ^ attempt) # send_attempts self transport events (Suc attempt)
                else send_attempts self transport events (Suc attempt))
             else debug_print self [ApiError status_code body]
         | RequestException e \<Rightarrow>
             if int attempt < max_retries self
             then Sleep (2 ^ attempt) # send_attempts self transport events (Suc attempt)
             else debug_print self [SendFailed (max_retries self) e] @
                  send_attempts self transport events (Suc attempt))
      else [])"
  by pat_completeness auto
termination
  by (relation "measure (\<lambda>(self, transport, events, attempt).
        nat (max_retries self + 1) - attempt)") auto

text \<open>
  The effects of \<^verbatim>\<open>_send_batch\<close> on a batch whose payload can be built: nothing for an
  empty batch, the loop from attempt 0 otherwise.
\<close>

definition send_batch :: "EvalForge \<Rightarrow> (nat \<Rightarrow> reply) \<Rightarrow> TraceEvent list \<Rightarrow> effect list" where
  "send_batch self transport events =
     (if events = [] then [] else send_attempts self transport events 0)"

text \<open>
  A call of \<^verbatim>\<open>_send_batch\<close> with its way of failing: after the test for an empty
  batch, the payload \<^verbatim>\<open>[event.model_dump(mode='json') for event in events]\<close> is built
  before the first attempt, and the call raises when an event cannot be serialised.
  Nothing has been posted then.
\<close>

definition send_batch_result ::
  "EvalForge \<Rightarrow> (nat \<Rightarrow> reply) \<Rightarrow> TraceEvent list \<Rightarrow> error + effect list" where
  "send_batch_result self transport events =
     (if events = [] then Inr []
      else if \<not> list_all json_serializable events then Inl PydanticSerializationError
      else Inr (send_batch self transport events))"

subsection \<open>The background worker\<close>

text \<open>
  The worker thread's local variables, with two histories kept beside them: the
  arguments of the calls of \<^verbatim>\<open>_send_batch\<close> so far, and the effects of those calls.
  The transport gives the reply to attempt \<open>a\<close> of the \<open>n\<close>-th call of
  \<^verbatim>\<open>_send_batch\<close> as \<open>transport n a\<close>.
\<close>

record Worker =
  batch :: "TraceEvent list"
  last_flush :: pyfloat
  sent :: "TraceEvent list list"
  effects :: "effect list"

type_synonym transport = "nat \<Rightarrow> nat \<Rightarrow> reply"

text \<open>
  A call \<^verbatim>\<open>self._send_batch(events)\<close> by the worker: the call is recorded, with its
  effects when it returns; the second component is the exception when it raises.
\<close>

definition call_send_batch ::
  "transport \<Rightarrow> EvalForge \<Rightarrow> TraceEvent list \<Rightarrow> Worker \<Rightarrow> Worker \<times> error option" where
  "call_send_batch tr self events w =
     (case send_batch_result self (tr (length (sent w))) events of
        Inr effs \<Rightarrow> (w\<lparr>sent := sent w @ [events], effects := effects w @ effs\<rparr>, None)
      | Inl e \<Rightarrow> (w\<lparr>sent := sent w @ [events]\<rparr>, Some e))"

text \<open>
  One pass through the body of \<^verbatim>\<open>while not self._stop_event.is_set()\<close>, with
  \<open>current_time\<close> the reading of \<^verbatim>\<open>time.time()\<close>. When \<^verbatim>\<open>_send_batch\<close> raises,
  the statements after the call are skipped and the handler \<^verbatim>\<open>except Exception\<close> of
  the outer \<^verbatim>\<open>try\<close> prints the error in debug mode: batch, last-flush time and flush
  flag stay as they are.
\<close>

definition dequeue_step :: "EvalForge \<times> Worker \<Rightarrow> EvalForge \<times> Worker" where
  "dequeue_step s =
     (case s of (self, w) \<Rightarrow>
        (case queue_get (event_queue self) of
           Some (event, q) \<Rightarrow> (self\<lparr>event_queue := q\<rparr>, w\<lparr>batch := batch w @ [event]\<rparr>)
         | None \<Rightarrow> (self, w)))"

definition should_flush :: "EvalForge \<Rightarrow> Worker \<Rightarrow> pyfloat \<Rightarrow> bool" where
  "should_flush self w current_time =
     (batch_size self \<le> int (length (batch w)) \<or>
      (batch w \<noteq> [] \<and> flush_interval self \<le> float_sub current_time (last_flush w)) \<or>
      flush_event self)"

definition worker_iteration ::
  "transport \<Rightarrow> pyfloat \<Rightarrow> EvalForge \<times> Worker \<Rightarrow> EvalForge \<times> Worker" where
  "worker_iteration tr current_time s =
     (case dequeue_step s of (self, w) \<Rightarrow>
        if should_flush self w current_time \<and> batch w \<noteq> [] then
          (case call_send_batch tr self (batch w) w of
             (w', None) \<Rightarrow>
               (if flush_event self then self\<lparr>flush_event := False\<rparr> else self,
                w'\<lparr>batch := [], last_flush := current_time\<rparr>)
           | (w', Some e) \<Rightarrow>
               (self, w'\<lparr>effects := effects w' @ debug_print self [WorkerError e]\<rparr>))
        else (self, w))"

text \<open>
  What the other threads did between two evaluations of the loop condition: the events
  they put on the queue (with \<^verbatim>\<open>put_nowait\<close>, an event being dropped when it raises
  \<^verbatim>\<open>Full\<close>), whether one of them set the flush flag or the stop flag, and what the
  clock shows in the iteration that follows.
\<close>

record Tick =
  arrivals :: "TraceEvent list"
  flush_set :: bool
  stop_set :: bool
  clock :: pyfloat

fun enqueue_all :: "'a Queue \<Rightarrow> 'a list \<Rightarrow> 'a Queue" where
  "enqueue_all q [] = q"
| "enqueue_all q (x # xs) =
     enqueue_all (case put_nowait q x of Inl e \<Rightarrow> q | Inr q' \<Rightarrow> q') xs"

definition env_step :: "Tick \<Rightarrow> EvalForge \<Rightarrow> EvalForge" where
  "env_step t self =
     self\<lparr>event_queue := enqueue_all (event_queue self) (arrivals t),
          flush_event := (flush_event self \<or> flush_set t),
          stop_event := (stop_event self \<or> stop_set t)\<rparr>"

text \<open>
  The \<^verbatim>\<open>while\<close> loop over a schedule of ticks. The result is the state in which the
  loop is left; \<open>None\<close> when the schedule ends and the loop is still running.
\<close>

fun worker_loop ::
  "transport \<Rightarrow> Tick list \<Rightarrow> EvalForge \<times> Worker \<Rightarrow> (EvalForge \<times> Worker) option" where
  "worker_loop tr [] s = None"
| "worker_loop tr (t # ts) s =
     (case s of (self, w) \<Rightarrow>
        if stop_event (env_step t self) then Some (env_step t self, w)
        else worker_loop tr ts (worker_iteration tr (clock t) (env_step t self, w)))"

text \<open>
  The statement after the loop: \<^verbatim>\<open>if batch: self._send_batch(batch)\<close>. It is outside
  the \<^verbatim>\<open>try\<close>: the third component is the exception the thread ends with when the
  call raises.
\<close>

definition final_flush ::
  "transport \<Rightarrow> EvalForge \<times> Worker \<Rightarrow> EvalForge \<times> Worker \<times> error option" where
  "final_flush tr s =
     (case s of (self, w) \<Rightarrow>
        if batch w \<noteq> [] then
          (case call_send_batch tr self (batch w) w of (w', r) \<Rightarrow> (self, w', r))
        else (self, w, None))"

definition worker_run ::
  "transport \<Rightarrow> Tick list \<Rightarrow> EvalForge \<times> Worker \<Rightarrow>
   (EvalForge \<times> Worker \<times> error option) option" where
  "worker_run tr ticks s = map_option (final_flush tr) (worker_loop tr ticks s)"

text \<open>\<^verbatim>\<open>_background_worker\<close>, started at clock reading \<open>started\<close>.\<close>

definition background_worker ::
  "transport \<Rightarrow> pyfloat \<Rightarrow> Tick list \<Rightarrow> EvalForge \<Rightarrow>
   (EvalForge \<times> Worker \<times> error option) option" where
  "background_worker tr started ticks self =
     worker_run tr ticks
       (self, \<lparr>batch = [], last_flush = started, sent = [], effects = []\<rparr>)"

subsection \<open>Recording an event\<close>

text \<open>
  The arguments of \<^verbatim>\<open>EvalForge.trace\<close>, in the order of its signature; an omitted
  optional argument is \<open>None\<close>.
\<close>

datatype TraceArgs =
  TraceArgs
    string "json_dict option" "json_dict option" "json_dict option"
    "string option" "string option" "string option"
    "datetime option" "datetime option"
    string "TokenUsage option" "pyfloat option" "string option" "string option"

text \<open>
  What a call reads from outside: \<^verbatim>\<open>datetime.now(timezone.utc)\<close> (an aware
  datetime), and the result of the \<open>k\<close>-th call of \<^verbatim>\<open>str(uuid.uuid4())\<close> it makes.
\<close>

record TraceEnv =
  now :: datetime
  uuid4 :: "nat \<Rightarrow> string"

text \<open>\<^verbatim>\<open>x or y\<close> on an optional string: \<open>None\<close> and the empty string are false.\<close>

definition str_truthy :: "string option \<Rightarrow> bool" where
  "str_truthy s = (case s of None \<Rightarrow> False | Some v \<Rightarrow> v \<noteq> [])"

text \<open>\<^verbatim>\<open>t or now\<close> on an optional datetime: every datetime is true.\<close>

definition time_or_now :: "TraceEnv \<Rightarrow> datetime option \<Rightarrow> datetime" where
  "time_or_now env t = (case t of None \<Rightarrow> now env | Some v \<Rightarrow> v)"

definition dict_or_empty :: "json_dict option \<Rightarrow> json_dict" where
  "dict_or_empty d = (case d of None \<Rightarrow> [] | Some v \<Rightarrow> if v = [] then [] else v)"

definition str_or_empty :: "string option \<Rightarrow> string" where
  "str_or_empty s = (if str_truthy s then the s else [])"

definition float_or_zero :: "pyfloat option \<Rightarrow> pyfloat" where
  "float_or_zero c = (case c of None \<Rightarrow> 0 | Some v \<Rightarrow> if v = 0 then 0 else v)"

text \<open>\<^verbatim>\<open>int((end_time - start_time).total_seconds() * 1000)\<close>\<close>

definition duration_of :: "datetime \<Rightarrow> datetime \<Rightarrow> error + int" where
  "duration_of start_time_v end_time_v =
     (case datetime_sub end_time_v start_time_v of
        Inl e \<Rightarrow> Inl e
      | Inr td \<Rightarrow> Inr (int_of_float (float_mul (total_seconds td) 1000)))"

text \<open>
  \<^verbatim>\<open>EvalForge.trace\<close>: the trace id returned, the client with the event on its queue,
  and what was printed; \<open>Inl\<close> when the call raises.
\<close>

fun EvalForge_trace ::
  "EvalForge \<Rightarrow> TraceEnv \<Rightarrow> TraceArgs \<Rightarrow> error + (string \<times> EvalForge \<times> log_msg list)" where
  "EvalForge_trace self env
     (TraceArgs operation_type_arg input_data output_data metadata_arg trace_id_arg span_id_arg
        parent_span_id_arg start_time_arg end_time_arg status_arg tokens_arg cost_arg
        provider_arg model_arg) =
     (let n0 = (0::nat);
          (trace_id_v, n1) =
            (if str_truthy trace_id_arg then (the trace_id_arg, n0) else (uuid4 env n0, Suc n0));
          (span_id_v, n2) =
            (if str_truthy span_id_arg then (the span_id_arg, n1) else (uuid4 env n1, Suc n1));
          start_time_v = time_or_now env start_time_arg;
          end_time_v = time_or_now env end_time_arg
      in case duration_of start_time_v end_time_v of
           Inl e \<Rightarrow> Inl e
         | Inr duration_ms_v \<Rightarrow>
             (let event =
                \<lparr>event_id = uuid4 env n2,
                 event_project_id = project_id self,
                 trace_id = trace_id_v,
                 span_id = span_id_v,
                 parent_span_id = parent_span_id_arg,
                 operation_type = operation_type_arg,
                 start_time = start_time_v,
                 end_time = end_time_v,
                 duration_ms = duration_ms_v,
                 status = status_arg,
                 event_input = dict_or_empty input_data,
                 event_output = dict_or_empty output_data,
                 metadata = dict_or_empty metadata_arg,
                 tokens = (case tokens_arg of None \<Rightarrow> TokenUsage_init None None None
                           | Some t \<Rightarrow> t),
                 cost = float_or_zero cost_arg,
                 provider = str_or_empty provider_arg,
                 model = str_or_empty model_arg\<rparr>
              in case put_nowait (event_queue self) event of
                   Inr q \<Rightarrow> Inr (trace_id_v, self\<lparr>event_queue := q\<rparr>, [])
                 | Inl e \<Rightarrow>
                     Inr (trace_id_v, self, if debug self then [QueueFullDrop] else [])))"

subsection \<open>Flushing\<close>

text \<open>
  \<^verbatim>\<open>EvalForge.flush\<close> sets the flush flag and then polls the queue, which the worker
  empties meanwhile. What the caller sees is given as the list of its successive
  observations, one for each evaluation of the loop condition (is the queue empty, the
  clock) and one for the final \<^verbatim>\<open>empty()\<close>; \<open>None\<close> when the observations end
  before the call returns.
\<close>

fun flush_poll :: "pyfloat \<Rightarrow> pyfloat \<Rightarrow> (bool \<times> pyfloat) list \<Rightarrow> bool option" where
  "flush_poll start_time_v timeout_v [] = None"
| "flush_poll start_time_v timeout_v ((is_empty, t) # obs) =
     (if \<not> is_empty \<and> float_sub t start_time_v < timeout_v
      then flush_poll start_time_v timeout_v obs
      else (case obs of [] \<Rightarrow> None | (is_empty', t') # obs' \<Rightarrow> Some is_empty'))"

definition EvalForge_flush ::
  "EvalForge \<Rightarrow> pyfloat \<Rightarrow> pyfloat \<Rightarrow> (bool \<times> pyfloat) list \<Rightarrow> EvalForge \<times> bool option" where
  "EvalForge_flush self timeout_v start_time_v obs =
     (self\<lparr>flush_event := True\<rparr>, flush_poll start_time_v timeout_v obs)"

subsection \<open>The global client\<close>

text \<open>
  The module variable \<^verbatim>\<open>_global_client\<close> is \<open>None\<close> until \<^verbatim>\<open>configure\<close> assigns a
  client to it. The module-level functions take its value and return it with their
  result.
\<close>

type_synonym global_client = "EvalForge option"

definition initial_global_client :: global_client where
  "initial_global_client = None"

definition configure ::
  "string \<Rightarrow> int \<Rightarrow> string \<Rightarrow> int \<Rightarrow> pyfloat \<Rightarrow> int \<Rightarrow> pyfloat \<Rightarrow> bool \<Rightarrow> global_client \<times> EvalForge" where
  "configure api_key_arg project_id_arg base_url_arg batch_size_arg flush_interval_arg
       max_retries_arg timeout_arg debug_arg =
     (let c = EvalForge_init api_key_arg project_id_arg base_url_arg batch_size_arg
                flush_interval_arg max_retries_arg timeout_arg debug_arg
      in (Some c, c))"

definition get_client :: "global_client \<Rightarrow> EvalForge option" where
  "get_client g = g"

definition not_configured :: string where
  "not_configured = ''EvalForge client not configured. Call evalforge.configure() first.''"

definition trace ::
  "global_client \<Rightarrow> TraceEnv \<Rightarrow> TraceArgs \<Rightarrow> error + (string \<times> global_client \<times> log_msg list)" where
  "trace g env args =
     (case get_client g of
        None \<Rightarrow> Inl (ValueError not_configured)
      | Some client \<Rightarrow>
          (case EvalForge_trace client env args of
             Inl e \<Rightarrow> Inl e
           | Inr (tid, client', out) \<Rightarrow> Inr (tid, Some client', out)))"

definition flush ::
  "global_client \<Rightarrow> pyfloat \<Rightarrow> pyfloat \<Rightarrow> (bool \<times> pyfloat) list \<Rightarrow> global_client \<times> bool option" where
  "flush g timeout_v start_time_v obs =
     (case get_client g of
        None \<Rightarrow> (g, Some True)
      | Some client \<Rightarrow>
          (case EvalForge_flush client timeout_v start_time_v obs of
             (client', r) \<Rightarrow> (Some client', r)))"

section \<open>Notions used to state the properties\<close>


text \<open>
  The retry policy as the specification words it: \<open>n\<close> posts of the batch, the first
  being attempt \<open>k\<close>, with a wait of \<open>2 ^ j\<close> seconds between attempt \<open>j\<close> and the
  next one, and nothing after the last post.
\<close>

fun retry_schedule :: "effect \<Rightarrow> nat \<Rightarrow> nat \<Rightarrow> effect list" where
  "retry_schedule post k 0 = []"
| "retry_schedule post k (Suc n) =
     post # (if n = 0 then [] else Sleep (2 ^ k) # retry_schedule post (Suc k) n)"



text \<open>
  The flush condition as the specification words it, for the accumulated batch \<open>b\<close>
  and the time elapsed since the last flush.
\<close>

definition flush_condition :: "EvalForge \<Rightarrow> TraceEvent list \<Rightarrow> pyfloat \<Rightarrow> bool" where
  "flush_condition self b elapsed =
     (b \<noteq> [] \<and>
      (batch_size self \<le> int (length b) \<or> flush_interval self \<le> elapsed \<or> flush_event self))"

text \<open>
  The iterations a running worker performs for a list of ticks: what the other threads
  did, then one pass through the loop body, tick after tick.
\<close>

fun run_iterations ::
  "transport \<Rightarrow> Tick list \<Rightarrow> EvalForge \<times> Worker \<Rightarrow> EvalForge \<times> Worker" where
  "run_iterations tr [] s = s"
| "run_iterations tr (t # ts) s =
     (case s of (self, w) \<Rightarrow>
        run_iterations tr ts (worker_iteration tr (clock t) (env_step t self, w)))"


text \<open>A client and an event to evaluate the definitions on.\<close>

definition sample_client :: EvalForge where
  "sample_client = EvalForge_init ''key'' 7 ''https://api.evalforge.dev/'' 2 5 3 30 False"

definition sample_event :: TraceEvent where
  "sample_event =
     \<lparr>event_id = ''e1'', event_project_id = 7, trace_id = ''t1'', span_id = ''s1'',
      parent_span_id = None, operation_type = ''llm_call'',
      start_time = \<lparr>micros = 0, tzinfo = Some 0, utcoffset = Some 0\<rparr>,
      end_time = \<lparr>micros = 0, tzinfo = Some 0, utcoffset = Some 0\<rparr>,
      duration_ms = 0, status = ''success'', event_input = [], event_output = [],
      metadata = [], tokens = TokenUsage_init None None None, cost = 0,
      provider = [], model = []\<rparr>"

definition sample_transport :: transport where
  "sample_transport = (\<lambda>n a. Response 201 ''created'')"

definition queue_client :: "TraceEvent list \<Rightarrow> EvalForge" where
  "queue_client evs =
     sample_client\<lparr>event_queue := (event_queue sample_client)\<lparr>items := evs\<rparr>\<rparr>"

text \<open>An event whose metadata holds an object with no JSON form.\<close>

definition opaque_event :: TraceEvent where
  "opaque_event = sample_event\<lparr>metadata := [(''handle'', PyObject)]\<rparr>"

definition flush_requested_client :: EvalForge where
  "flush_requested_client = (queue_client [opaque_event])\<lparr>flush_event := True\<rparr>"

definition idle_worker :: Worker where
  "idle_worker = \<lparr>batch = [], last_flush = 10, sent = [], effects = []\<rparr>"

definition arrival_tick :: Tick where
  "arrival_tick =
     \<lparr>arrivals = [sample_event], flush_set = False, stop_set = False, clock = 10\<rparr>"

definition stop_tick :: Tick where
  "stop_tick = \<lparr>arrivals = [], flush_set = False, stop_set = True, clock = 11\<rparr>"

definition sample_env :: TraceEnv where
  "sample_env = \<lparr>now = \<lparr>micros = 1704067200000000, tzinfo = Some 0, utcoffset = Some 0\<rparr>,
      uuid4 = (\<lambda>k. ''u'' @ digits k)\<rparr>"

definition sample_args :: TraceArgs where
  "sample_args =
     TraceArgs ''llm_call'' None None None (Some ''t1'') None None None None ''success''
       None None None None"

definition timed_args :: TraceArgs where
  "timed_args =
     TraceArgs ''llm_call'' None None None (Some ''t1'') None None
       (Some \<lparr>micros = 1704067200000000, tzinfo = Some 0, utcoffset = Some 0\<rparr>)
       (Some \<lparr>micros = 1704067201001000, tzinfo = Some 0, utcoffset = Some 0\<rparr>)
       ''success'' None None None None"

declare send_attempts.simps [simp del]


section \<open>Token usage\<close>

text \<open>
  C4. When \<open>total\<close> is not supplied, or is supplied as 0, the constructed total is
  \<open>prompt + completion\<close>; a nonzero \<open>total\<close> is kept as it is, whatever the other two
  fields are. Omitted fields count as 0.
\<close>

theorem TokenUsage_total_at_construction:
  "(t = None \<or> t = Some 0 \<longrightarrow>
      total (TokenUsage_init p c t) = field_default p + field_default c) \<and>
   (\<forall>v. t = Some v \<and> v \<noteq> 0 \<longrightarrow> total (TokenUsage_init p c t) = v) \<and>
   prompt (TokenUsage_init p c t) = field_default p \<and>
   completion (TokenUsage_init p c t) = field_default c"
  by (auto simp: TokenUsage_init_def field_default_def Let_def)

theorem TokenUsage_total_witness:
  "total (TokenUsage_init (Some 3) (Some 4) None) = 7 \<and>
   total (TokenUsage_init (Some 3) (Some 4) (Some 0)) = 7 \<and>
   total (TokenUsage_init (Some 3) (Some 4) (Some 5)) = 5"
  using TokenUsage_total_at_construction [of None "Some 3" "Some 4"]
    TokenUsage_total_at_construction [of "Some 0" "Some 3" "Some 4"]
    TokenUsage_total_at_construction [of "Some 5" "Some 3" "Some 4"]
  by (simp add: field_default_def)

section \<open>The global accessors\<close>

text \<open>
  C7. The module-level \<^verbatim>\<open>trace\<close>, called while no global client is configured (as
  at module load), raises \<^verbatim>\<open>ValueError\<close> with a message that says so; nothing is
  recorded.
\<close>

theorem trace_unconfigured_raises:
  "trace initial_global_client env args = Inl (ValueError not_configured) \<and>
   trace None env args = Inl (ValueError not_configured) \<and>
   not_configured \<noteq> []"
  by (simp add: trace_def get_client_def initial_global_client_def not_configured_def)

text \<open>
  C10. The module-level \<^verbatim>\<open>flush\<close>, called while no global client is configured,
  returns \<^verbatim>\<open>True\<close> without polling (whatever the observations, even none) and leaves
  the global client unset, while the module-level \<^verbatim>\<open>trace\<close> raises in that state.
\<close>

theorem flush_unconfigured_returns_True:
  "flush None timeout_v start_time_v obs = (None, Some True) \<and>
   flush None timeout_v start_time_v [] = (None, Some True) \<and>
   trace None env args = Inl (ValueError not_configured)"
  by (simp add: flush_def trace_def get_client_def)

section \<open>The constructor's debug argument\<close>

text \<open>
  C8. The claim is that the client's debug setting equals the \<^verbatim>\<open>debug\<close> argument.
  The constructor assigns \<^verbatim>\<open>True\<close> instead: a client built with
  \<^verbatim>\<open>debug=False\<close> has debug output on.
\<close>

theorem debug_argument_ignored:
  "debug (EvalForge_init k p u bs fi mr tmo False) = True"
  by (simp add: EvalForge_init_def)

section \<open>The duration of an event\<close>

text \<open>
  When the end time minus the start time is a timedelta that is not negative, so is the
  duration, and it is 0 when the timedelta is.
\<close>

lemma round_half_even_nonneg: "0 \<le> x \<Longrightarrow> 0 \<le> round_half_even x"
  by (auto simp: round_half_even_def Let_def)

lemma float_round_nonneg: "0 \<le> x \<Longrightarrow> 0 \<le> float_round x"
proof -
  assume x: "0 \<le> x"
  have p: "\<And>e::int. 0 < power_int (2::rat) e" by (simp add: zero_less_power_int)
  have "\<And>e::int. 0 \<le> x / power_int 2 e" using x p by (simp add: less_imp_le)
  then have "\<And>e::int. 0 \<le> (of_int (round_half_even (x / power_int 2 e)) :: rat) * power_int 2 e"
    using p round_half_even_nonneg by (simp add: less_imp_le)
  then show ?thesis by (simp add: float_round_def Let_def)
qed

lemma duration_of_nonneg:
  assumes "datetime_sub b a = Inr td" and "0 \<le> td"
  shows "\<exists>d. duration_of a b = Inr d \<and> 0 \<le> d"
proof -
  have "0 \<le> (of_int td :: rat) / of_int (10 ^ 6)"
    using assms(2) by simp
  then have "0 \<le> total_seconds td"
    unfolding total_seconds_def int_truediv_def by (rule float_round_nonneg)
  then have "0 \<le> total_seconds td * 1000" by simp
  then have "0 \<le> float_mul (total_seconds td) 1000"
    unfolding float_mul_def by (rule float_round_nonneg)
  then have "0 \<le> int_of_float (float_mul (total_seconds td) 1000)"
    by (simp add: int_of_float_def)
  then show ?thesis using assms(1) by (simp add: duration_of_def)
qed

lemma duration_of_equal:
  assumes "datetime_sub b a = Inr 0"
  shows "duration_of a b = Inr 0"
  using assms
  by (simp add: duration_of_def total_seconds_def int_truediv_def
      float_mul_def float_round_def int_of_float_def)

text \<open>
  C6. The claim is that \<open>duration_ms\<close> is the difference of the two timestamps in whole
  milliseconds. For a start at 2024-01-01 00:00:00 UTC and an end 1.001 seconds later
  the difference is 1001 milliseconds, and the event put on the queue has a duration
  of 1000: the float product \<^verbatim>\<open>total_seconds() * 1000\<close> is
  \<open>1000.9999999999999\<close>, and \<^verbatim>\<open>int\<close> truncates it.
\<close>

theorem duration_ms_one_short:
  "map_sum id (\<lambda>r. map duration_ms (items (event_queue (fst (snd r)))))
     (EvalForge_trace sample_client sample_env timed_args) = Inr [1000] \<and>
   (1704067201001000 - 1704067200000000) div 1000 = (1001 :: int)"
  by code_simp

section \<open>Sending a batch: retries and status codes\<close>

subsection \<open>The schedule and the effects of one attempt\<close>


















subsection \<open>A transport that always answers 429\<close>



subsection \<open>The status code of an attempt\<close>

lemma retry_schedule_nonempty: "retry_schedule post k (Suc n) \<noteq> []"
  by simp






section \<open>The background worker\<close>

subsection \<open>One iteration of the loop\<close>

text \<open>
  In an iteration, with \<open>w1\<close> the worker after the attempt to dequeue, \<^verbatim>\<open>_send_batch\<close>
  is called on the batch if and only if the batch is non-empty and its length is at
  least \<open>batch_size\<close>, or the time since the last flush is at least \<open>flush_interval\<close>,
  or the flush flag is set. When the call returns, the batch becomes empty, the
  last-flush time becomes the current time and the flush flag is cleared. When the call
  raises, the error is printed and batch, last-flush time and flag are left alone.
\<close>

lemma dequeue_step_cases:
  "dequeue_step (self, w) =
     (case items (event_queue self) of
        [] \<Rightarrow> (self, w)
      | x # xs \<Rightarrow> (self\<lparr>event_queue := (event_queue self)\<lparr>items := xs\<rparr>\<rparr>,
                   w\<lparr>batch := batch w @ [x]\<rparr>))"
  by (simp add: dequeue_step_def queue_get_def split: list.splits)

lemma dequeue_step_config:
  assumes "dequeue_step (self, w) = (self1, w1)"
  shows "batch_size self1 = batch_size self \<and> flush_interval self1 = flush_interval self \<and>
         flush_event self1 = flush_event self \<and> stop_event self1 = stop_event self \<and>
         debug self1 = debug self \<and>
         last_flush w1 = last_flush w \<and> sent w1 = sent w \<and> effects w1 = effects w \<and>
         maxsize (event_queue self1) = maxsize (event_queue self)"
  using assms by (auto simp: dequeue_step_cases split: list.splits)

lemma should_flush_iff:
  "(should_flush self w ct \<and> batch w \<noteq> []) =
     flush_condition self (batch w) (float_sub ct (last_flush w))"
  by (auto simp: should_flush_def flush_condition_def)

lemma call_send_batch_returns:
  "send_batch_result self (tr (length (sent w))) events = Inr effs \<Longrightarrow>
   call_send_batch tr self events w =
     (w\<lparr>sent := sent w @ [events], effects := effects w @ effs\<rparr>, None)"
  by (simp add: call_send_batch_def)

lemma call_send_batch_raises:
  "send_batch_result self (tr (length (sent w))) events = Inl e \<Longrightarrow>
   call_send_batch tr self events w = (w\<lparr>sent := sent w @ [events]\<rparr>, Some e)"
  by (simp add: call_send_batch_def)

lemma worker_iteration_idle:
  assumes "dequeue_step (self, w) = (self1, w1)"
    and "\<not> flush_condition self1 (batch w1) (float_sub ct (last_flush w1))"
  shows "worker_iteration tr ct (self, w) = (self1, w1)"
proof -
  have nf: "(should_flush self1 w1 ct \<and> batch w1 \<noteq> []) = False"
    using assms(2) should_flush_iff [of self1 w1 ct] by simp
  show ?thesis by (simp only: worker_iteration_def assms(1) prod.case nf if_False)
qed

lemma worker_iteration_returns:
  assumes "dequeue_step (self, w) = (self1, w1)"
    and "flush_condition self1 (batch w1) (float_sub ct (last_flush w1))"
    and "send_batch_result self1 (tr (length (sent w1))) (batch w1) = Inr effs"
  shows "worker_iteration tr ct (self, w) =
           (if flush_event self1 then self1\<lparr>flush_event := False\<rparr> else self1,
            w1\<lparr>sent := sent w1 @ [batch w1], effects := effects w1 @ effs,
                batch := [], last_flush := ct\<rparr>)"
proof -
  have tf: "(should_flush self1 w1 ct \<and> batch w1 \<noteq> []) = True"
    using assms(2) should_flush_iff [of self1 w1 ct] by simp
  have c: "call_send_batch tr self1 (batch w1) w1 =
     (w1\<lparr>sent := sent w1 @ [batch w1], effects := effects w1 @ effs\<rparr>, None)"
    using assms(3) by (simp add: call_send_batch_def)
  have "worker_iteration tr ct (self, w) =
           (if flush_event self1 then self1\<lparr>flush_event := False\<rparr> else self1,
            (w1\<lparr>sent := sent w1 @ [batch w1], effects := effects w1 @ effs\<rparr>)
              \<lparr>batch := [], last_flush := ct\<rparr>)"
    by (simp only: worker_iteration_def assms(1) prod.case tf if_True c option.case)
  then show ?thesis by simp
qed

lemma worker_iteration_raises:
  assumes "dequeue_step (self, w) = (self1, w1)"
    and "flush_condition self1 (batch w1) (float_sub ct (last_flush w1))"
    and "send_batch_result self1 (tr (length (sent w1))) (batch w1) = Inl e"
  shows "worker_iteration tr ct (self, w) =
           (self1, w1\<lparr>sent := sent w1 @ [batch w1],
                       effects := effects w1 @ debug_print self1 [WorkerError e]\<rparr>)"
proof -
  have tf: "(should_flush self1 w1 ct \<and> batch w1 \<noteq> []) = True"
    using assms(2) should_flush_iff [of self1 w1 ct] by simp
  have c: "call_send_batch tr self1 (batch w1) w1 =
     (w1\<lparr>sent := sent w1 @ [batch w1]\<rparr>, Some e)"
    using assms(3) by (simp add: call_send_batch_def)
  have "worker_iteration tr ct (self, w) =
           (self1, (w1\<lparr>sent := sent w1 @ [batch w1]\<rparr>)
              \<lparr>effects := effects (w1\<lparr>sent := sent w1 @ [batch w1]\<rparr>) @
                 debug_print self1 [WorkerError e]\<rparr>)"
    by (simp only: worker_iteration_def assms(1) prod.case tf if_True c option.case)
  then show ?thesis by simp
qed

lemma worker_iteration_flush:
  assumes "dequeue_step (self, w) = (self1, w1)"
    and "worker_iteration tr current_time (self, w) = (self2, w2)"
  shows
    "batch w1 = (case queue_get (event_queue self) of
                   None \<Rightarrow> batch w | Some (event, q) \<Rightarrow> batch w @ [event]) \<and>
     (sent w2 \<noteq> sent w \<longleftrightarrow>
        flush_condition self (batch w1) (float_sub current_time (last_flush w))) \<and>
     (flush_condition self (batch w1) (float_sub current_time (last_flush w)) \<longrightarrow>
        sent w2 = sent w @ [batch w1]) \<and>
     (flush_condition self (batch w1) (float_sub current_time (last_flush w)) \<and>
      send_batch_result self1 (tr (length (sent w))) (batch w1) = Inr effs \<longrightarrow>
        effects w2 = effects w @ effs \<and>
        batch w2 = [] \<and> last_flush w2 = current_time \<and> \<not> flush_event self2) \<and>
     (flush_condition self (batch w1) (float_sub current_time (last_flush w)) \<and>
      send_batch_result self1 (tr (length (sent w))) (batch w1) = Inl e \<longrightarrow>
        effects w2 = effects w @ debug_print self [WorkerError e] \<and>
        batch w2 = batch w1 \<and> last_flush w2 = last_flush w \<and>
        flush_event self2 = flush_event self) \<and>
     (\<not> flush_condition self (batch w1) (float_sub current_time (last_flush w)) \<longrightarrow>
        sent w2 = sent w \<and> effects w2 = effects w \<and>
        batch w2 = batch w1 \<and> last_flush w2 = last_flush w \<and>
        flush_event self2 = flush_event self)"
proof -
  note cfg = dequeue_step_config [OF assms(1)]
  let ?fc = "flush_condition self (batch w1) (float_sub current_time (last_flush w))"
  have fc: "?fc = flush_condition self1 (batch w1) (float_sub current_time (last_flush w1))"
    using cfg by (simp add: flush_condition_def)
  have b: "batch w1 = (case queue_get (event_queue self) of
                   None \<Rightarrow> batch w | Some (event, q) \<Rightarrow> batch w @ [event])"
    using assms(1) by (auto simp: dequeue_step_def split: option.splits)
  have dp: "debug_print self1 [WorkerError e] = debug_print self [WorkerError e]"
    using cfg by (simp add: debug_print_def)
  show ?thesis
  proof (cases ?fc)
    case False
    then have "worker_iteration tr current_time (self, w) = (self1, w1)"
      using fc worker_iteration_idle [OF assms(1)] by simp
    then have r: "self2 = self1 \<and> w2 = w1" using assms(2) by simp
    show ?thesis using False b r cfg by simp
  next
    case True
    then have fc1: "flush_condition self1 (batch w1) (float_sub current_time (last_flush w1))"
      using fc by simp
    show ?thesis
    proof (cases "send_batch_result self1 (tr (length (sent w1))) (batch w1)")
      case (Inr effs')
      have "worker_iteration tr current_time (self, w) =
           (if flush_event self1 then self1\<lparr>flush_event := False\<rparr> else self1,
            w1\<lparr>sent := sent w1 @ [batch w1], effects := effects w1 @ effs',
                batch := [], last_flush := current_time\<rparr>)"
        using assms(1) fc1 Inr by (rule worker_iteration_returns)
      then have r: "self2 = (if flush_event self1 then self1\<lparr>flush_event := False\<rparr> else self1) \<and>
            w2 = w1\<lparr>sent := sent w1 @ [batch w1], effects := effects w1 @ effs',
                batch := [], last_flush := current_time\<rparr>"
        using assms(2) by simp
      show ?thesis using True b r cfg Inr by simp
    next
      case (Inl e')
      have "worker_iteration tr current_time (self, w) =
           (self1, w1\<lparr>sent := sent w1 @ [batch w1],
                       effects := effects w1 @ debug_print self1 [WorkerError e']\<rparr>)"
        using assms(1) fc1 Inl by (rule worker_iteration_raises)
      then have r: "self2 = self1 \<and>
            w2 = w1\<lparr>sent := sent w1 @ [batch w1],
                       effects := effects w1 @ debug_print self1 [WorkerError e']\<rparr>"
        using assms(2) by simp
      show ?thesis using True b r cfg Inl dp by (auto simp: debug_print_def)
    qed
  qed
qed

lemma opaque_not_serializable: "\<not> json_serializable opaque_event"
  by (simp add: json_serializable_def opaque_event_def)

lemma opaque_dequeue:
  "dequeue_step (flush_requested_client, idle_worker) =
     (flush_requested_client\<lparr>event_queue := (event_queue flush_requested_client)\<lparr>items := []\<rparr>\<rparr>,
      idle_worker\<lparr>batch := [opaque_event]\<rparr>)"
  by (simp add: dequeue_step_cases flush_requested_client_def queue_client_def idle_worker_def)

text \<open>
  C2. The claim is that whenever a flush occurs the batch is emptied and the time of
  the last flush is reset. Take a client whose flush flag is set and whose queue holds
  one event with a metadata value that has no JSON form. The iteration dequeues the
  event and calls \<^verbatim>\<open>_send_batch\<close> on it; the call raises while the payload is built,
  and the handler of the loop only prints the error: the batch still holds the event,
  the last-flush time is still 10 and the flush flag is still set, so the next iteration
  hands the same batch to \<^verbatim>\<open>_send_batch\<close> again.
\<close>

theorem flush_raising_keeps_batch:
  "worker_iteration sample_transport 11 (flush_requested_client, idle_worker) =
     (flush_requested_client\<lparr>event_queue := (event_queue flush_requested_client)\<lparr>items := []\<rparr>\<rparr>,
      idle_worker\<lparr>batch := [opaque_event], sent := [[opaque_event]],
        effects := [Print (WorkerError PydanticSerializationError)]\<rparr>) \<and>
   flush_event (fst (worker_iteration sample_transport 11 (flush_requested_client, idle_worker))) \<and>
   last_flush (snd (worker_iteration sample_transport 11 (flush_requested_client, idle_worker)))
     = 10 \<and>
   sent (snd (worker_iteration sample_transport 12
      (worker_iteration sample_transport 11 (flush_requested_client, idle_worker)))) =
     [[opaque_event], [opaque_event]]"
proof -
  let ?c1 = "flush_requested_client\<lparr>event_queue :=
               (event_queue flush_requested_client)\<lparr>items := []\<rparr>\<rparr>"
  let ?w1 = "idle_worker\<lparr>batch := [opaque_event]\<rparr>"
  let ?w2 = "idle_worker\<lparr>batch := [opaque_event], sent := [[opaque_event]],
        effects := [Print (WorkerError PydanticSerializationError)]\<rparr>"
  have fe: "flush_event ?c1" by (simp add: flush_requested_client_def)
  have dbg: "debug ?c1"
    by (simp add: flush_requested_client_def queue_client_def sample_client_def EvalForge_init_def)
  have fc1: "flush_condition ?c1 (batch ?w1) (float_sub 11 (last_flush ?w1))"
    using fe by (simp add: flush_condition_def)
  have r1: "send_batch_result ?c1 (sample_transport (length (sent ?w1))) (batch ?w1) =
              Inl PydanticSerializationError"
    by (simp add: send_batch_result_def opaque_not_serializable)
  have i1: "worker_iteration sample_transport 11 (flush_requested_client, idle_worker) = (?c1, ?w2)"
    using worker_iteration_raises [where tr = sample_transport, OF opaque_dequeue fc1 r1] dbg
    by (simp add: debug_print_def idle_worker_def)
  have d2: "dequeue_step (?c1, ?w2) = (?c1, ?w2)"
    by (simp add: dequeue_step_cases)
  have fc2: "flush_condition ?c1 (batch ?w2) (float_sub 12 (last_flush ?w2))"
    using fe by (simp add: flush_condition_def)
  have r2: "send_batch_result ?c1 (sample_transport (length (sent ?w2))) (batch ?w2) =
              Inl PydanticSerializationError"
    by (simp add: send_batch_result_def opaque_not_serializable)
  have i2: "sent (snd (worker_iteration sample_transport 12 (?c1, ?w2))) =
              [[opaque_event], [opaque_event]]"
    using worker_iteration_raises [where tr = sample_transport, OF d2 fc2 r2] by simp
  show ?thesis unfolding i1 using i2 fe by (simp add: idle_worker_def)
qed

subsection \<open>Stopping\<close>

lemma env_step_stop: "stop_set t \<Longrightarrow> stop_event (env_step t self)"
  by (simp add: env_step_def)

lemma env_step_no_stop:
  "\<not> stop_event self \<Longrightarrow> \<not> stop_set t \<Longrightarrow> \<not> stop_event (env_step t self)"
  by (simp add: env_step_def)

lemma worker_iteration_stop_event:
  "stop_event (fst (worker_iteration tr ct (self, w))) = stop_event self"
proof -
  obtain self1 w1 where d: "dequeue_step (self, w) = (self1, w1)"
    by (cases "dequeue_step (self, w)") blast
  have s1: "stop_event self1 = stop_event self"
    using dequeue_step_config [OF d] by simp
  show ?thesis
    using s1
    by (simp add: worker_iteration_def d split: prod.splits option.splits)
qed

lemma worker_loop_exit:
  "stop_event (env_step t self) \<Longrightarrow>
   worker_loop tr (t # ts) (self, w) = Some (env_step t self, w)"
  by simp

lemma worker_loop_continue:
  "\<not> stop_event (env_step t self) \<Longrightarrow>
   worker_loop tr (t # ts) (self, w) =
     worker_loop tr ts (worker_iteration tr (clock t) (env_step t self, w))"
  by simp

lemma worker_loop_exit_state:
  assumes "stop_set t"
  shows "\<not> stop_event self \<Longrightarrow> \<forall>u\<in>set pre. \<not> stop_set u \<Longrightarrow>
         run_iterations tr pre (self, w) = (self1, w1) \<Longrightarrow>
         worker_loop tr (pre @ t # post) (self, w) = Some (env_step t self1, w1)"
proof (induction pre arbitrary: self w)
  case Nil
  then have "self1 = self \<and> w1 = w" by simp
  then show ?case using env_step_stop [OF assms, of self] by simp
next
  case (Cons u pre)
  have ns: "\<not> stop_event (env_step u self)"
    using Cons.prems(1,2) by (simp add: env_step_no_stop)
  obtain self' w' where it: "worker_iteration tr (clock u) (env_step u self, w) = (self', w')"
    by (cases "worker_iteration tr (clock u) (env_step u self, w)") blast
  have ns': "\<not> stop_event self'"
    using worker_iteration_stop_event [of tr "clock u" "env_step u self" w] it ns by simp
  have p: "\<forall>v\<in>set pre. \<not> stop_set v" using Cons.prems(2) by simp
  have r: "run_iterations tr pre (self', w') = (self1, w1)"
    using Cons.prems(3) it by simp
  have "worker_loop tr (pre @ t # post) (self', w') = Some (env_step t self1, w1)"
    using ns' p r by (rule Cons.IH)
  then show ?case using ns it by simp
qed

lemma final_flush_result:
  "\<exists>w2 r. final_flush tr (self1, w1) = (self1, w2, r) \<and>
     sent w2 = sent w1 @ (if batch w1 = [] then [] else [batch w1]) \<and>
     batch w2 = batch w1 \<and> last_flush w2 = last_flush w1 \<and>
     (case send_batch_result self1 (tr (length (sent w1))) (batch w1) of
        Inr effs \<Rightarrow> effects w2 = effects w1 @ effs \<and> r = None
      | Inl e \<Rightarrow> effects w2 = effects w1 \<and> r = Some e)"
proof (cases "batch w1 = []")
  case True
  then show ?thesis by (simp add: final_flush_def send_batch_result_def)
next
  case False
  then show ?thesis
    by (cases "send_batch_result self1 (tr (length (sent w1))) (batch w1)")
       (simp_all add: final_flush_def call_send_batch_def)
qed

text \<open>
  C3. Let the stop flag be clear at first and stay clear during the ticks \<open>pre\<close>, let
  \<open>(self1, w1)\<close> be the state after the iterations for \<open>pre\<close>, and let the flag be set
  at tick \<open>t\<close>. Then the loop is left at the check of \<open>t\<close>, with the worker exactly as
  the last of those iterations left it and the queue as the callers left it: no further
  iteration runs and nothing more is dequeued, whatever is scheduled after \<open>t\<close>. The
  worker then calls \<^verbatim>\<open>_send_batch\<close> once more, on the batch it holds, exactly when
  that batch is not empty, whatever its length, and ends (with the exception of that
  call when it raises).
\<close>

theorem worker_stop_final_flush:
  assumes "\<not> stop_event self"
    and "\<forall>u\<in>set pre. \<not> stop_set u"
    and "stop_set t"
    and "run_iterations tr pre (self, w) = (self1, w1)"
  shows
    "worker_loop tr (pre @ t # post) (self, w) = Some (env_step t self1, w1) \<and>
     (\<exists>w2 r.
        worker_run tr (pre @ t # post) (self, w) = Some (env_step t self1, w2, r) \<and>
        sent w2 = sent w1 @ (if batch w1 = [] then [] else [batch w1]) \<and>
        batch w2 = batch w1 \<and> last_flush w2 = last_flush w1 \<and>
        (case send_batch_result (env_step t self1) (tr (length (sent w1))) (batch w1) of
           Inr effs \<Rightarrow> effects w2 = effects w1 @ effs \<and> r = None
         | Inl e \<Rightarrow> effects w2 = effects w1 \<and> r = Some e))"
proof -
  have l: "worker_loop tr (pre @ t # post) (self, w) = Some (env_step t self1, w1)"
    using assms(3,1,2,4) by (rule worker_loop_exit_state)
  have r: "worker_run tr (pre @ t # post) (self, w) =
             Some (final_flush tr (env_step t self1, w1))"
    using l by (simp add: worker_run_def)
  show ?thesis
    using l r final_flush_result [of tr "env_step t self1" w1] by simp
qed

lemma sample_run_iterations:
  "run_iterations sample_transport [arrival_tick] (sample_client, idle_worker) =
     (queue_client [], idle_worker\<lparr>batch := [sample_event]\<rparr>)"
proof -
  have d: "dequeue_step (env_step arrival_tick sample_client, idle_worker) =
             (queue_client [], idle_worker\<lparr>batch := [sample_event]\<rparr>)"
    by (simp add: dequeue_step_cases env_step_def arrival_tick_def put_nowait_def
        queue_client_def sample_client_def EvalForge_init_def Queue_init_def idle_worker_def)
  have nf: "\<not> flush_condition (queue_client []) (batch (idle_worker\<lparr>batch := [sample_event]\<rparr>))
              (float_sub 10 (last_flush (idle_worker\<lparr>batch := [sample_event]\<rparr>)))"
    by (simp add: flush_condition_def queue_client_def sample_client_def EvalForge_init_def
        idle_worker_def float_sub_def float_round_def)
  have "worker_iteration sample_transport 10 (env_step arrival_tick sample_client, idle_worker) =
          (queue_client [], idle_worker\<lparr>batch := [sample_event]\<rparr>)"
    using d nf by (rule worker_iteration_idle)
  then show ?thesis by (simp add: arrival_tick_def)
qed

theorem worker_stop_final_flush_witness:
  "worker_loop sample_transport [arrival_tick, stop_tick] (sample_client, idle_worker) =
     Some (env_step stop_tick (queue_client []), idle_worker\<lparr>batch := [sample_event]\<rparr>) \<and>
   map_option (\<lambda>s. sent (fst (snd s)))
     (worker_run sample_transport [arrival_tick, stop_tick] (sample_client, idle_worker)) =
     Some [[sample_event]] \<and>
   batch_size sample_client = 2"
proof -
  have a: "\<not> stop_event sample_client" by (simp add: sample_client_def EvalForge_init_def)
  have b: "\<forall>u\<in>set [arrival_tick]. \<not> stop_set u" by (simp add: arrival_tick_def)
  have c: "stop_set stop_tick" by (simp add: stop_tick_def)
  have s0: "sent idle_worker = []" by (simp add: idle_worker_def)
  have bs: "batch_size sample_client = 2" by (simp add: sample_client_def EvalForge_init_def)
  show ?thesis
    using worker_stop_final_flush [where tr = sample_transport and post = "[]",
        OF a b c sample_run_iterations] s0 bs
    by auto
qed

section \<open>Enqueueing without a capacity bound\<close>

lemma put_nowait_unbounded:
  "maxsize q \<le> 0 \<Longrightarrow> put_nowait q x = Inr (q\<lparr>items := items q @ [x]\<rparr>)"
  by (simp add: put_nowait_def)

lemma maxsize_enqueue_all: "maxsize (enqueue_all q xs) = maxsize q"
  by (induction xs arbitrary: q) (auto simp: put_nowait_def)

lemma maxsize_env_step: "maxsize (event_queue (env_step t self)) = maxsize (event_queue self)"
  by (simp add: env_step_def maxsize_enqueue_all)

lemma maxsize_worker_iteration:
  "maxsize (event_queue (fst (worker_iteration tr ct (self, w)))) = maxsize (event_queue self)"
proof -
  obtain self1 w1 where d: "dequeue_step (self, w) = (self1, w1)"
    by (cases "dequeue_step (self, w)") blast
  have m: "maxsize (event_queue self1) = maxsize (event_queue self)"
    using dequeue_step_config [OF d] by simp
  show ?thesis
    using m by (simp add: worker_iteration_def d split: prod.splits option.splits)
qed

lemma maxsize_init: "maxsize (event_queue (EvalForge_init k p u bs fi mr tmo d)) = 0"
  by (simp add: EvalForge_init_def Queue_init_def)

lemma trace_unbounded:
  assumes "maxsize (event_queue self) \<le> 0"
    and "datetime_sub (time_or_now env et) (time_or_now env st) = Inr td"
  shows "\<exists>ev. EvalForge_trace self env
            (TraceArgs op_t inp outp md tid sid psid st et stat tok cst prov mdl) =
          Inr (trace_id ev,
               self\<lparr>event_queue := (event_queue self)\<lparr>items := items (event_queue self) @ [ev]\<rparr>\<rparr>,
               []) \<and>
          trace_id ev = (if str_truthy tid then the tid else uuid4 env 0)"
proof -
  obtain d where d: "duration_of (time_or_now env st) (time_or_now env et) = Inr d"
    using assms(2) by (simp add: duration_of_def)
  show ?thesis
    using d assms(1)
    apply (simp add: Let_def put_nowait_unbounded split: prod.splits)
    apply (intro conjI impI)
     apply (rule exI, rule conjI [OF _ conjI [OF refl]], simp, simp)+
    done
qed

lemma trace_never_Full: "EvalForge_trace self env args \<noteq> Inl Full"
proof (cases args)
  case (TraceArgs op_t inp outp md tid sid psid st et stat tok cst prov mdl)
  have "duration_of (time_or_now env st) (time_or_now env et) \<noteq> Inl Full"
    by (auto simp: duration_of_def datetime_sub_def Let_def
        split: sum.splits if_splits option.splits prod.splits)
  then show ?thesis unfolding TraceArgs
    by (auto simp: Let_def split: prod.splits sum.splits if_splits)
qed

text \<open>
  C9. The constructor builds the queue with \<open>maxsize = 0\<close>, and neither the callers'
  enqueues nor the worker change it. With \<open>maxsize = 0\<close>, \<^verbatim>\<open>put_nowait\<close> returns
  the queue with the item appended, and \<^verbatim>\<open>trace\<close>, once the event is built (end time
  minus start time is a timedelta), returns the trace id of the event with that event
  at the end of the queue and nothing printed. No call of \<^verbatim>\<open>trace\<close> raises
  \<^verbatim>\<open>Full\<close>.
\<close>

theorem trace_enqueue_never_full:
  "maxsize (event_queue (EvalForge_init k p u bs fi mr tmo d)) = 0 \<and>
   EvalForge_trace self env args \<noteq> Inl Full \<and>
   (maxsize (event_queue self) = 0 \<longrightarrow>
      maxsize (event_queue (env_step t self)) = 0 \<and>
      maxsize (event_queue (fst (worker_iteration tr ct (self, w)))) = 0 \<and>
      put_nowait (event_queue self) e =
        Inr ((event_queue self)\<lparr>items := items (event_queue self) @ [e]\<rparr>) \<and>
      (datetime_sub (time_or_now env et) (time_or_now env st) = Inr td \<longrightarrow>
         (\<exists>ev. EvalForge_trace self env
                  (TraceArgs op_t inp outp md tid sid psid st et stat tok cst prov mdl) =
                Inr (trace_id ev,
                     self\<lparr>event_queue :=
                       (event_queue self)\<lparr>items := items (event_queue self) @ [ev]\<rparr>\<rparr>,
                     []) \<and>
               trace_id ev = (if str_truthy tid then the tid else uuid4 env 0))))"
proof -
  have a: "maxsize (event_queue (EvalForge_init k p u bs fi mr tmo d)) = 0"
    by (rule maxsize_init)
  have b: "EvalForge_trace self env args \<noteq> Inl Full" by (rule trace_never_Full)
  have c: "maxsize (event_queue self) = 0 \<Longrightarrow> maxsize (event_queue (env_step t self)) = 0"
    by (simp add: maxsize_env_step)
  have d: "maxsize (event_queue self) = 0 \<Longrightarrow>
      maxsize (event_queue (fst (worker_iteration tr ct (self, w)))) = 0"
    by (simp add: maxsize_worker_iteration)
  have e: "maxsize (event_queue self) = 0 \<Longrightarrow> put_nowait (event_queue self) e =
        Inr ((event_queue self)\<lparr>items := items (event_queue self) @ [e]\<rparr>)"
    by (simp add: put_nowait_unbounded)
  have f: "maxsize (event_queue self) = 0 \<Longrightarrow>
      datetime_sub (time_or_now env et) (time_or_now env st) = Inr td \<Longrightarrow>
         (\<exists>ev. EvalForge_trace self env
                  (TraceArgs op_t inp outp md tid sid psid st et stat tok cst prov mdl) =
                Inr (trace_id ev,
                     self\<lparr>event_queue :=
                       (event_queue self)\<lparr>items := items (event_queue self) @ [ev]\<rparr>\<rparr>,
                     []) \<and>
               trace_id ev = (if str_truthy tid then the tid else uuid4 env 0))"
    using trace_unbounded [of self env et st td] by simp
  show ?thesis using a b c d e f by simp
qed

theorem trace_enqueue_never_full_witness:
  "map_sum id fst (EvalForge_trace sample_client sample_env sample_args) = Inr ''t1'' \<and>
   map_sum id (\<lambda>r. length (items (event_queue (fst (snd r)))))
     (EvalForge_trace sample_client sample_env sample_args) = Inr 1"
proof -
  have m: "maxsize (event_queue sample_client) = 0"
    by (simp add: sample_client_def EvalForge_init_def Queue_init_def)
  have i: "items (event_queue sample_client) = []"
    by (simp add: sample_client_def EvalForge_init_def Queue_init_def)
  have ds: "datetime_sub (time_or_now sample_env None) (time_or_now sample_env None) = Inr 0"
    by (simp add: datetime_sub_def)
  have "\<exists>ev. EvalForge_trace sample_client sample_env sample_args =
       Inr (trace_id ev,
            sample_client\<lparr>event_queue :=
              (event_queue sample_client)\<lparr>items := items (event_queue sample_client) @ [ev]\<rparr>\<rparr>,
            []) \<and>
       trace_id ev = ''t1''"
    using trace_enqueue_never_full [where self = sample_client and env = sample_env
        and st = None and et = None and td = 0 and tid = "Some ''t1''" and op_t = "''llm_call''"
        and inp = None and outp = None and md = None and sid = None and psid = None
        and stat = "''success''" and tok = None and cst = None and prov = None and mdl = None]
      m ds
    unfolding sample_args_def by (simp add: str_truthy_def)
  then obtain ev where
    r: "EvalForge_trace sample_client sample_env sample_args =
       Inr (trace_id ev,
            sample_client\<lparr>event_queue :=
              (event_queue sample_client)\<lparr>items := items (event_queue sample_client) @ [ev]\<rparr>\<rparr>,
            [])"
    and t: "trace_id ev = ''t1''"
    by blast
  show ?thesis unfolding r using t i by simp
qed

end
